theory Spec2Isabelle
  imports Complex_Main "HOL-Library.Product_Lexorder"
begin

section \<open>Errors\<close>

text \<open>
  Every exception a handler of \<^verbatim>\<open>main.py\<close> can end with is a value. \<open>HTTPException\<close>
  carries the status code and detail the handler raises itself (404 is the spec's
  NotFound, 400 with detail "SKU already exists" its Conflict). The other constructors
  are exceptions no handler catches: the store's \<open>IntegrityError\<close> and \<open>DataError\<close>,
  the request validation of the framework (status 422), and Python's own \<open>TypeError\<close>,
  \<open>ValueError\<close> and \<open>OverflowError\<close> raised by the \<^verbatim>\<open>datetime\<close> library.
\<close>

datatype error =
    HTTPException int string
  | RequestValidationError
  | IntegrityError
  | DataError
  | TypeError
  | ValueError
  | OverflowError

section \<open>Python's datetime library\<close>

text \<open>
  The handlers compute with \<^verbatim>\<open>datetime.date\<close>, \<^verbatim>\<open>datetime.datetime\<close> and
  \<^verbatim>\<open>datetime.timedelta\<close>. The definitions below follow the library's reference
  implementation (\<^verbatim>\<open>_pydatetime.py\<close>): the proleptic Gregorian ordinal of a date,
  its inverse, and arithmetic through ordinals with the range check that raises
  \<open>OverflowError\<close>.
\<close>

record date =
  year :: int
  month :: int
  day :: int

record datetime =
  date_part :: date
  hour :: int
  minute :: int
  second :: int
  microsecond :: int

text \<open>A timedelta built from whole days and seconds, normalised as the library does
  (\<open>0 \<le> seconds < 86400\<close>): \<^verbatim>\<open>timedelta(seconds=-1)\<close> is \<open>-1\<close> day and \<open>86399\<close> seconds.\<close>

record timedelta =
  days :: int
  seconds :: int

definition mk_timedelta :: "int \<Rightarrow> int \<Rightarrow> timedelta" where
  "mk_timedelta d s = \<lparr>days = d + s div 86400, seconds = s mod 86400\<rparr>"

definition neg_timedelta :: "timedelta \<Rightarrow> timedelta" where
  "neg_timedelta td = mk_timedelta (- days td) (- seconds td)"

definition MINYEAR :: int where "MINYEAR = 1"
definition MAXYEAR :: int where "MAXYEAR = 9999"
definition MAXORDINAL :: int where "MAXORDINAL = 3652059"

definition is_leap :: "int \<Rightarrow> bool" where
  "is_leap y = (y mod 4 = 0 \<and> (y mod 400 = 0 \<or> y mod 100 \<noteq> 0))"

definition days_before_year :: "int \<Rightarrow> int" where
  "days_before_year y = (let y1 = y - 1 in y1 * 365 + y1 div 4 - y1 div 100 + y1 div 400)"

definition DAYS_IN_MONTH :: "int list" where
  "DAYS_IN_MONTH = [-1, 31, 28, 31, 30, 31, 30, 31, 31, 30, 31, 30, 31]"

definition DAYS_BEFORE_MONTH :: "int list" where
  "DAYS_BEFORE_MONTH = [-1, 0, 31, 59, 90, 120, 151, 181, 212, 243, 273, 304, 334]"

definition days_in_month :: "int \<Rightarrow> int \<Rightarrow> int" where
  "days_in_month y m = (if m = 2 \<and> is_leap y then 29 else DAYS_IN_MONTH ! nat m)"

definition days_before_month :: "int \<Rightarrow> int \<Rightarrow> int" where
  "days_before_month y m = DAYS_BEFORE_MONTH ! nat m + (if m > 2 \<and> is_leap y then 1 else 0)"

definition ymd2ord :: "int \<Rightarrow> int \<Rightarrow> int \<Rightarrow> int" where
  "ymd2ord y m d = days_before_year y + days_before_month y m + d"

text \<open>\<^verbatim>\<open>_ord2ymd\<close>: 400-year cycles of 146097 days, centuries of 36524 days, 4-year
  cycles of 1461 days, years of 365 days; then the month is estimated as
  \<open>(n + 50) >> 5\<close> and corrected downwards by at most one.\<close>

definition ord2ymd :: "int \<Rightarrow> int \<times> int \<times> int" where
  "ord2ymd n0 =
     (let n = n0 - 1;
          n400 = n div 146097; n = n mod 146097;
          n100 = n div 36524; n = n mod 36524;
          n4 = n div 1461; n = n mod 1461;
          n1 = n div 365; n = n mod 365;
          y = n400 * 400 + 1 + n100 * 100 + n4 * 4 + n1
      in if n1 = 4 \<or> n100 = 4 then (y - 1, 12, 31)
         else
           let leapyear = (n1 = 3 \<and> (n4 \<noteq> 24 \<or> n100 = 3));
               m = (n + 50) div 32;
               preceding = DAYS_BEFORE_MONTH ! nat m + (if m > 2 \<and> leapyear then 1 else 0)
           in if preceding > n
              then let m' = m - 1;
                       preceding' = preceding
                         - (DAYS_IN_MONTH ! nat m' + (if m' = 2 \<and> leapyear then 1 else 0))
                   in (y, m', n - preceding' + 1)
              else (y, m, n - preceding + 1))"

text \<open>The dates the \<^verbatim>\<open>date\<close> constructor accepts; it raises \<open>ValueError\<close> on any other
  triple.\<close>

definition valid_date :: "date \<Rightarrow> bool" where
  "valid_date d =
     (MINYEAR \<le> year d \<and> year d \<le> MAXYEAR \<and> 1 \<le> month d \<and> month d \<le> 12 \<and>
      1 \<le> day d \<and> day d \<le> days_in_month (year d) (month d))"

definition new_date :: "int \<Rightarrow> int \<Rightarrow> int \<Rightarrow> error + date" where
  "new_date y m d =
     (let r = \<lparr>year = y, month = m, day = d\<rparr>
      in if valid_date r then Inr r else Inl ValueError)"

definition toordinal :: "date \<Rightarrow> int" where
  "toordinal d = ymd2ord (year d) (month d) (day d)"

definition fromordinal :: "int \<Rightarrow> date" where
  "fromordinal n = (case ord2ymd n of (y, m, d) \<Rightarrow> \<lparr>year = y, month = m, day = d\<rparr>)"

text \<open>\<^verbatim>\<open>date.weekday()\<close>: Monday is 0, Sunday is 6.\<close>

definition weekday :: "date \<Rightarrow> int" where
  "weekday d = (toordinal d + 6) mod 7"

text \<open>\<^verbatim>\<open>date + timedelta\<close> and \<^verbatim>\<open>date - timedelta\<close> use the timedelta's days only: its
  seconds are ignored.\<close>

definition date_add :: "date \<Rightarrow> timedelta \<Rightarrow> error + date" where
  "date_add d td =
     (let ord = toordinal d + days td
      in if 0 < ord \<and> ord \<le> MAXORDINAL then Inr (fromordinal ord) else Inl OverflowError)"

definition date_sub :: "date \<Rightarrow> timedelta \<Rightarrow> error + date" where
  "date_sub d td = date_add d (mk_timedelta (- days td) 0)"

text \<open>\<^verbatim>\<open>datetime.combine(d, datetime.min.time())\<close>: midnight of the day.\<close>

definition combine_min :: "date \<Rightarrow> datetime" where
  "combine_min d = \<lparr>date_part = d, hour = 0, minute = 0, second = 0, microsecond = 0\<rparr>"

definition datetime_add :: "datetime \<Rightarrow> timedelta \<Rightarrow> error + datetime" where
  "datetime_add dt td =
     (let secs = hour dt * 3600 + minute dt * 60 + second dt + seconds td;
          ord = toordinal (date_part dt) + days td + secs div 86400;
          s = secs mod 86400
      in if 0 < ord \<and> ord \<le> MAXORDINAL
         then Inr \<lparr>date_part = fromordinal ord, hour = s div 3600,
                   minute = (s mod 3600) div 60, second = s mod 60,
                   microsecond = microsecond dt\<rparr>
         else Inl OverflowError)"

definition datetime_sub :: "datetime \<Rightarrow> timedelta \<Rightarrow> error + datetime" where
  "datetime_sub dt td = datetime_add dt (neg_timedelta td)"

text \<open>Naive datetimes compare as the tuples of their fields, lexicographically; the
  store orders its timestamp column the same way.\<close>

definition dt_key :: "datetime \<Rightarrow> int \<times> int \<times> int \<times> int \<times> int \<times> int \<times> int" where
  "dt_key dt =
     (year (date_part dt), month (date_part dt), day (date_part dt),
      hour dt, minute dt, second dt, microsecond dt)"

text \<open>A value that is either a \<^verbatim>\<open>date\<close> or a \<^verbatim>\<open>datetime\<close>: the handler's
  \<^verbatim>\<open>period_end\<close> is one or the other, depending on the branch.\<close>

datatype temporal = Date date | Datetime datetime

section \<open>Python's float\<close>

text \<open>
  A Python \<^verbatim>\<open>float\<close> is an IEEE binary64 number. A finite one is modelled as the real
  number it denotes, and an operation as the exact result rounded to the nearest
  binary64 number, ties to the even significand (53 bits, gradual underflow below
  \<open>2 ^ (-1022)\<close>). The infinities and NaN are outside the model: a result above
  \<open>float_max\<close> is an infinity in Python, so what is said of a result is said where
  \<open>finite_double\<close> holds of it.
\<close>

text \<open>\<^verbatim>\<open>int.bit_length()\<close> of a positive integer.\<close>

function bit_length :: "int \<Rightarrow> int" where
  "bit_length n = (if n \<le> 0 then 0 else 1 + bit_length (n div 2))"
  by pat_completeness auto
termination
  by (relation "measure nat") auto

declare bit_length.simps [simp del]

definition pow2 :: "int \<Rightarrow> real" where
  "pow2 k = (if 0 \<le> k then 2 ^ nat k else 1 / 2 ^ nat (- k))"

text \<open>For \<open>x > 0\<close>, the exponent \<open>e\<close> with \<open>2 ^ e \<le> x < 2 ^ (e + 1)\<close>.\<close>

definition binade :: "real \<Rightarrow> int" where
  "binade x =
     (if 1 \<le> x then bit_length \<lfloor>x\<rfloor> - 1
      else - bit_length (\<lceil>1 / x\<rceil> - 1))"

definition round_half_even :: "real \<Rightarrow> int" where
  "round_half_even x =
     (let f = \<lfloor>x\<rfloor>; r = x - of_int f
      in if r < 1 / 2 then f
         else if 1 / 2 < r then f + 1
         else if even f then f else f + 1)"

definition round_double :: "real \<Rightarrow> real" where
  "round_double x =
     (if x = 0 then 0
      else let ulp = pow2 (max (binade \<bar>x\<bar>) (- 1022) - 52)
           in sgn x * of_int (round_half_even (\<bar>x\<bar> / ulp)) * ulp)"

text \<open>The largest binary64 number.\<close>

definition float_max :: real where
  "float_max = (2 ^ 53 - 1) * 2 ^ 971"

definition finite_double :: "real \<Rightarrow> bool" where
  "finite_double x = (\<bar>x\<bar> \<le> float_max)"

text \<open>The conversion of an \<^verbatim>\<open>int\<close> operand to \<^verbatim>\<open>float\<close>; it raises \<open>OverflowError\<close>
  ("int too large to convert to float") when the rounded value is not finite.\<close>

definition float_of_int :: "int \<Rightarrow> error + real" where
  "float_of_int n =
     (let r = round_double (of_int n)
      in if finite_double r then Inr r else Inl OverflowError)"

text \<open>\<^verbatim>\<open>x * y\<close>, \<^verbatim>\<open>x + y\<close> and \<^verbatim>\<open>x / y\<close> (for \<open>y \<noteq> 0\<close>) on floats.\<close>

definition float_mul :: "real \<Rightarrow> real \<Rightarrow> real" where
  "float_mul x y = round_double (x * y)"

definition float_add :: "real \<Rightarrow> real \<Rightarrow> real" where
  "float_add x y = round_double (x + y)"

definition float_div :: "real \<Rightarrow> real \<Rightarrow> real" where
  "float_div x y = round_double (x / y)"

section \<open>The record store\<close>

text \<open>
  The four tables of \<^verbatim>\<open>main.py\<close>. A \<^verbatim>\<open>Float\<close> column holds a float (a real number,
  see above), an \<^verbatim>\<open>Integer\<close> column an integer, a \<^verbatim>\<open>String(n)\<close> or \<^verbatim>\<open>Text\<close> column a
  string of characters. The clock-filled columns (\<^verbatim>\<open>created_at\<close>, \<^verbatim>\<open>updated_at\<close>,
  \<^verbatim>\<open>last_updated\<close>) are left out: no handler reads them. Field names carry the
  table's initial, since the tables share the names \<^verbatim>\<open>id\<close>, \<^verbatim>\<open>name\<close>, \<^verbatim>\<open>quantity\<close>
  and \<^verbatim>\<open>platform\<close>.
\<close>

record Category =
  c_id :: int
  c_name :: string
  c_description :: "string option"

record Product =
  p_id :: int
  p_name :: string
  p_description :: "string option"
  p_price :: real
  p_sku :: string
  p_category_id :: int
  p_platform :: string
  p_is_active :: bool

record Inventory =
  i_id :: int
  i_product_id :: int
  i_quantity :: int
  i_low_stock_threshold :: int

record Sale =
  s_id :: int
  s_product_id :: int
  s_quantity :: int
  s_unit_price :: real
  s_total_amount :: real
  s_sale_date :: datetime
  s_platform :: string
  s_order_id :: "string option"

text \<open>The state of the store: the rows of each table, in the order in which an
  unordered query returns them.\<close>

record db =
  categories :: "Category list"
  products :: "Product list"
  inventories :: "Inventory list"
  sales :: "Sale list"

text \<open>The request bodies (the Pydantic models).\<close>

record CategoryCreate =
  cc_name :: string
  cc_description :: "string option"

record ProductCreate =
  pc_name :: string
  pc_description :: "string option"
  pc_price :: real
  pc_sku :: string
  pc_category_id :: int
  pc_platform :: string
  pc_initial_stock :: "int option"
  pc_low_stock_threshold :: "int option"

record InventoryUpdate =
  iu_quantity :: int
  iu_low_stock_threshold :: "int option"

record SaleCreate =
  sc_product_id :: int
  sc_quantity :: int
  sc_unit_price :: real
  sc_sale_date :: datetime
  sc_platform :: string
  sc_order_id :: "string option"

datatype PeriodType = daily | weekly | monthly | annual

record RevenueAnalysis =
  r_period :: PeriodType
  r_total_revenue :: real
  r_total_sales :: int
  r_average_order_value :: real
  r_start_date :: datetime
  r_end_date :: temporal

text \<open>The store assigns the identifier of a new row: one more than the largest in
  the table.\<close>

definition next_id :: "int list \<Rightarrow> int" where
  "next_id ids = fold max ids 0 + 1"

text \<open>
  The store enforces the column types of the schema when a row is written (the store
  of \<^verbatim>\<open>DATABASE_URL\<close> is PostgreSQL): an \<^verbatim>\<open>Integer\<close> column holds a 32-bit signed
  integer and a \<^verbatim>\<open>String(n)\<close> column at most \<open>n\<close> characters. A commit with a value
  outside raises \<open>DataError\<close> and writes nothing. A \<^verbatim>\<open>Float\<close> column holds every float
  and a \<^verbatim>\<open>Text\<close> column every string.
\<close>

definition fits_integer :: "int \<Rightarrow> bool" where
  "fits_integer n = (- 2147483648 \<le> n \<and> n \<le> 2147483647)"

definition fits_string :: "nat \<Rightarrow> string \<Rightarrow> bool" where
  "fits_string n str = (length str \<le> n)"

definition fits_string_option :: "nat \<Rightarrow> string option \<Rightarrow> bool" where
  "fits_string_option n v = (case v of None \<Rightarrow> True | Some str \<Rightarrow> fits_string n str)"

text \<open>\<^verbatim>\<open>query.filter(...).first()\<close>: the first row that matches, or \<^verbatim>\<open>None\<close>.\<close>

definition first :: "('a \<Rightarrow> bool) \<Rightarrow> 'a list \<Rightarrow> 'a option" where
  "first P rows = find P rows"

text \<open>Python's truthiness of an optional query parameter: \<^verbatim>\<open>None\<close>, the integer
  \<open>0\<close> and the empty string are false.\<close>

definition truthy_int :: "int option \<Rightarrow> bool" where
  "truthy_int v = (case v of None \<Rightarrow> False | Some n \<Rightarrow> n \<noteq> 0)"

definition truthy_str :: "string option \<Rightarrow> bool" where
  "truthy_str v = (case v of None \<Rightarrow> False | Some s \<Rightarrow> s \<noteq> [])"

section \<open>Catalog\<close>

text \<open>
  \<^verbatim>\<open>create_category\<close> (main.py 194-200) adds the row and commits. The column
  \<^verbatim>\<open>name\<close> is a \<^verbatim>\<open>String(100)\<close> declared \<^verbatim>\<open>unique=True\<close>: the commit of a longer
  name raises \<open>DataError\<close>, the commit of a second row with the same name raises the
  store's \<open>IntegrityError\<close>; the handler has no check of its own and catches nothing.
  Every handler returns its outcome and the state it leaves.
\<close>

definition create_category :: "CategoryCreate \<Rightarrow> db \<Rightarrow> (error + Category) \<times> db" where
  "create_category category s =
     (let db_category = \<lparr>c_id = next_id (map c_id (categories s)),
                          c_name = cc_name category,
                          c_description = cc_description category\<rparr>
      in if \<not> fits_string 100 (c_name db_category)
         then (Inl DataError, s)
         else if list_ex (\<lambda>c. c_name c = cc_name category) (categories s)
         then (Inl IntegrityError, s)
         else (Inr db_category, s\<lparr>categories := categories s @ [db_category]\<rparr>))"

definition get_categories :: "db \<Rightarrow> Category list" where
  "get_categories s = categories s"

text \<open>
  \<^verbatim>\<open>create_product\<close> (main.py 207-238): the category check comes first, then the SKU
  check; the product is committed, then its inventory row is added and committed. An
  \<^verbatim>\<open>initial_stock\<close> or \<^verbatim>\<open>low_stock_threshold\<close> of \<^verbatim>\<open>None\<close> is left to the column's
  default (0 and 10). Each commit can fail on a column type; \<^verbatim>\<open>inventory.product_id\<close>
  is unique, so a row already there for the new identifier makes the second commit
  fail too. A failure of the second commit leaves the product of the first.
\<close>

definition create_product :: "ProductCreate \<Rightarrow> db \<Rightarrow> (error + Product) \<times> db" where
  "create_product product s =
     (case first (\<lambda>c. c_id c = pc_category_id product) (categories s) of
        None \<Rightarrow> (Inl (HTTPException 404 ''Category not found''), s)
      | Some category \<Rightarrow>
          (case first (\<lambda>p. p_sku p = pc_sku product) (products s) of
             Some existing_product \<Rightarrow> (Inl (HTTPException 400 ''SKU already exists''), s)
           | None \<Rightarrow>
               let initial_stock = pc_initial_stock product;
                   low_stock_threshold = pc_low_stock_threshold product;
                   db_product = \<lparr>p_id = next_id (map p_id (products s)),
                                 p_name = pc_name product,
                                 p_description = pc_description product,
                                 p_price = pc_price product,
                                 p_sku = pc_sku product,
                                 p_category_id = pc_category_id product,
                                 p_platform = pc_platform product,
                                 p_is_active = True\<rparr>;
                   s1 = s\<lparr>products := products s @ [db_product]\<rparr>;
                   db_inventory = \<lparr>i_id = next_id (map i_id (inventories s1)),
                                   i_product_id = p_id db_product,
                                   i_quantity = (case initial_stock of None \<Rightarrow> 0 | Some q \<Rightarrow> q),
                                   i_low_stock_threshold =
                                     (case low_stock_threshold of None \<Rightarrow> 10 | Some t \<Rightarrow> t)\<rparr>
               in if \<not> (fits_string 200 (p_name db_product) \<and>
                         fits_string 50 (p_sku db_product) \<and>
                         fits_string 50 (p_platform db_product))
                  then (Inl DataError, s)
                  else if \<not> (fits_integer (i_quantity db_inventory) \<and>
                              fits_integer (i_low_stock_threshold db_inventory))
                  then (Inl DataError, s1)
                  else if list_ex (\<lambda>i. i_product_id i = p_id db_product) (inventories s1)
                  then (Inl IntegrityError, s1)
                  else (Inr db_product, s1\<lparr>inventories := inventories s1 @ [db_inventory]\<rparr>)))"

text \<open>\<^verbatim>\<open>get_products\<close> (main.py 240-256): a filter is applied when its parameter is
  truthy (\<^verbatim>\<open>if category_id:\<close>, \<^verbatim>\<open>if platform:\<close>), or for \<^verbatim>\<open>is_active\<close> when it is not
  \<^verbatim>\<open>None\<close>.\<close>

definition get_products :: "int option \<Rightarrow> string option \<Rightarrow> bool option \<Rightarrow> db \<Rightarrow> Product list" where
  "get_products category_id platform is_active s =
     (let query = products s;
          query = (if truthy_int category_id
                   then filter (\<lambda>p. Some (p_category_id p) = category_id) query else query);
          query = (if truthy_str platform
                   then filter (\<lambda>p. Some (p_platform p) = platform) query else query);
          query = (if is_active \<noteq> None
                   then filter (\<lambda>p. Some (p_is_active p) = is_active) query else query)
      in query)"

definition get_product :: "int \<Rightarrow> db \<Rightarrow> error + Product" where
  "get_product product_id s =
     (case first (\<lambda>p. p_id p = product_id) (products s) of
        None \<Rightarrow> Inl (HTTPException 404 ''Product not found'')
      | Some product \<Rightarrow> Inr product)"

section \<open>Inventory\<close>

text \<open>A committed change of a loaded row is written back by its primary key.\<close>

definition set_quantity :: "int \<Rightarrow> int \<Rightarrow> Inventory list \<Rightarrow> Inventory list" where
  "set_quantity pk q rows = map (\<lambda>r. if i_id r = pk then r\<lparr>i_quantity := q\<rparr> else r) rows"

definition set_threshold :: "int \<Rightarrow> int \<Rightarrow> Inventory list \<Rightarrow> Inventory list" where
  "set_threshold pk t rows =
     map (\<lambda>r. if i_id r = pk then r\<lparr>i_low_stock_threshold := t\<rparr> else r) rows"

text \<open>\<^verbatim>\<open>get_inventory\<close> (main.py 266-282): the inventory rows whose product exists (the
  join), each with its \<^verbatim>\<open>is_low_stock\<close> flag.\<close>

definition get_inventory :: "bool \<Rightarrow> db \<Rightarrow> (Inventory \<times> bool) list" where
  "get_inventory low_stock_only s =
     (let query = concat (map (\<lambda>i. map (\<lambda>p. i) (filter (\<lambda>p. p_id p = i_product_id i) (products s)))
                           (inventories s));
          query = (if low_stock_only
                   then filter (\<lambda>i. i_quantity i \<le> i_low_stock_threshold i) query else query)
      in map (\<lambda>i. (i, i_quantity i \<le> i_low_stock_threshold i)) query)"

text \<open>\<^verbatim>\<open>update_inventory\<close> (main.py 284-302): the quantity of the request replaces the
  stored one as it is; the commit fails when the new quantity or threshold does not
  fit its column.\<close>

definition update_inventory ::
  "int \<Rightarrow> InventoryUpdate \<Rightarrow> db \<Rightarrow> (error + Inventory \<times> bool) \<times> db" where
  "update_inventory product_id inventory_update s =
     (case first (\<lambda>i. i_product_id i = product_id) (inventories s) of
        None \<Rightarrow> (Inl (HTTPException 404 ''Inventory not found''), s)
      | Some inventory \<Rightarrow>
          let rows = set_quantity (i_id inventory) (iu_quantity inventory_update) (inventories s);
              inventory1 = inventory\<lparr>i_quantity := iu_quantity inventory_update\<rparr>;
              rows = (case iu_low_stock_threshold inventory_update of
                        None \<Rightarrow> rows | Some t \<Rightarrow> set_threshold (i_id inventory) t rows);
              inventory2 = (case iu_low_stock_threshold inventory_update of
                        None \<Rightarrow> inventory1 | Some t \<Rightarrow> inventory1\<lparr>i_low_stock_threshold := t\<rparr>)
          in if \<not> (fits_integer (iu_quantity inventory_update) \<and>
                    (case iu_low_stock_threshold inventory_update of
                       None \<Rightarrow> True | Some t \<Rightarrow> fits_integer t))
             then (Inl DataError, s)
             else (Inr (inventory2, i_quantity inventory2 \<le> i_low_stock_threshold inventory2),
                   s\<lparr>inventories := rows\<rparr>))"

section \<open>Sales\<close>

text \<open>\<^verbatim>\<open>create_sale\<close> (main.py 305-338): the product must exist; the total is the
  float product \<^verbatim>\<open>sale.quantity * sale.unit_price\<close>, whose \<^verbatim>\<open>int\<close> operand is converted
  first; the sale is added; the product's inventory row, when there is one, is
  decremented and floored at zero; one commit writes both, and fails as a whole when a
  value of the sale or the new quantity does not fit its column.\<close>

definition create_sale :: "SaleCreate \<Rightarrow> db \<Rightarrow> (error + Sale) \<times> db" where
  "create_sale sale s =
     (case first (\<lambda>p. p_id p = sc_product_id sale) (products s) of
        None \<Rightarrow> (Inl (HTTPException 404 ''Product not found''), s)
      | Some product \<Rightarrow>
          (case float_of_int (sc_quantity sale) of
             Inl e \<Rightarrow> (Inl e, s)
           | Inr quantity \<Rightarrow>
               let total_amount = float_mul quantity (sc_unit_price sale);
                   db_sale = \<lparr>s_id = next_id (map s_id (sales s)),
                              s_product_id = sc_product_id sale,
                              s_quantity = sc_quantity sale,
                              s_unit_price = sc_unit_price sale,
                              s_total_amount = total_amount,
                              s_sale_date = sc_sale_date sale,
                              s_platform = sc_platform sale,
                              s_order_id = sc_order_id sale\<rparr>;
                   update =
                     (case first (\<lambda>i. i_product_id i = sc_product_id sale) (inventories s) of
                        None \<Rightarrow> None
                      | Some inventory \<Rightarrow>
                          let q = i_quantity inventory - sc_quantity sale;
                              q = (if q < 0 then 0 else q)
                          in Some (i_id inventory, q))
               in if \<not> (fits_integer (s_quantity db_sale) \<and>
                         fits_string 50 (s_platform db_sale) \<and>
                         fits_string_option 100 (s_order_id db_sale) \<and>
                         (case update of None \<Rightarrow> True | Some (pk, q) \<Rightarrow> fits_integer q))
                  then (Inl DataError, s)
                  else (Inr db_sale,
                        s\<lparr>sales := sales s @ [db_sale],
                          inventories := (case update of
                                            None \<Rightarrow> inventories s
                                          | Some (pk, q) \<Rightarrow> set_quantity pk q (inventories s))\<rparr>)))"

text \<open>The inner join of \<^verbatim>\<open>db.query(Sale).join(Product)\<close>: each sale with the product
  row its \<^verbatim>\<open>product_id\<close> names.\<close>

definition sale_join_product :: "db \<Rightarrow> (Sale \<times> Product) list" where
  "sale_join_product s =
     concat (map (\<lambda>sale. map (\<lambda>p. (sale, p)) (filter (\<lambda>p. p_id p = s_product_id sale) (products s)))
                 (sales s))"

text \<open>\<^verbatim>\<open>get_sales\<close> (main.py 340-364). A datetime is always truthy, so a date bound is
  applied whenever it is given; \<^verbatim>\<open>product_id\<close>, \<^verbatim>\<open>category_id\<close> and \<^verbatim>\<open>platform\<close> are
  applied when truthy. The framework rejects \<open>limit > 1000\<close> and \<open>offset < 0\<close>; the
  store rejects a negative \<open>LIMIT\<close>.\<close>

definition get_sales ::
  "datetime option \<Rightarrow> datetime option \<Rightarrow> int option \<Rightarrow> int option \<Rightarrow> string option \<Rightarrow>
   int \<Rightarrow> int \<Rightarrow> db \<Rightarrow> error + Sale list" where
  "get_sales start_date end_date product_id category_id platform limit offset s =
     (if limit > 1000 \<or> offset < 0 then Inl RequestValidationError
      else
        let query = sale_join_product s;
            query = (case start_date of None \<Rightarrow> query
                     | Some d \<Rightarrow> filter (\<lambda>(sale, p). dt_key (s_sale_date sale) \<ge> dt_key d) query);
            query = (case end_date of None \<Rightarrow> query
                     | Some d \<Rightarrow> filter (\<lambda>(sale, p). dt_key (s_sale_date sale) \<le> dt_key d) query);
            query = (if truthy_int product_id
                     then filter (\<lambda>(sale, p). Some (s_product_id sale) = product_id) query
                     else query);
            query = (if truthy_int category_id
                     then filter (\<lambda>(sale, p). Some (p_category_id p) = category_id) query
                     else query);
            query = (if truthy_str platform
                     then filter (\<lambda>(sale, p). Some (s_platform sale) = platform) query
                     else query);
            ordered = rev (sort_key (\<lambda>(sale, p). dt_key (s_sale_date sale)) query)
        in if limit < 0 then Inl DataError
           else Inr (map fst (take (nat limit) (drop (nat offset) ordered))))"

section \<open>Revenue analysis\<close>

text \<open>\<^verbatim>\<open>replace(hour=..., minute=..., second=...)\<close> is a method of \<^verbatim>\<open>datetime\<close>. The
  \<^verbatim>\<open>replace\<close> of a \<^verbatim>\<open>date\<close> takes \<^verbatim>\<open>year\<close>, \<^verbatim>\<open>month\<close> and \<^verbatim>\<open>day\<close> only and raises
  \<open>TypeError\<close> on any other keyword.\<close>

fun replace_hms :: "temporal \<Rightarrow> int \<Rightarrow> int \<Rightarrow> int \<Rightarrow> error + temporal" where
  "replace_hms (Date d) h m sec = Inl TypeError"
| "replace_hms (Datetime dt) h m sec =
     (if 0 \<le> h \<and> h < 24 \<and> 0 \<le> m \<and> m < 60 \<and> 0 \<le> sec \<and> sec < 60
      then Inr (Datetime (dt\<lparr>hour := h, minute := m, second := sec\<rparr>))
      else Inl ValueError)"

text \<open>An exception ends the handler: the rest runs only on a value.\<close>

definition and_then :: "error + 'a \<Rightarrow> ('a \<Rightarrow> error + 'b) \<Rightarrow> error + 'b" where
  "and_then r f = (case r of Inl e \<Rightarrow> Inl e | Inr x \<Rightarrow> f x)"

text \<open>The key of a sale's bucket (main.py 394-402), a \<^verbatim>\<open>date\<close> in every branch.\<close>

definition bucket_key :: "PeriodType \<Rightarrow> Sale \<Rightarrow> error + date" where
  "bucket_key p sale =
     (let d = date_part (s_sale_date sale)
      in case p of
           daily \<Rightarrow> Inr d
         | weekly \<Rightarrow> date_sub d (mk_timedelta (weekday d) 0)
         | monthly \<Rightarrow> new_date (year d) (month d) 1
         | annual \<Rightarrow> new_date (year d) 1 1)"

text \<open>The dictionary \<^verbatim>\<open>grouped_sales\<close>: keys in insertion order; assigning to a key
  that is present keeps its place.\<close>

record bucket =
  b_total_revenue :: real
  b_total_sales :: int
  b_sales_count :: int

fun dict_set :: "'k \<Rightarrow> 'v \<Rightarrow> ('k \<times> 'v) list \<Rightarrow> ('k \<times> 'v) list" where
  "dict_set k v [] = [(k, v)]"
| "dict_set k v (kv # kvs) = (if fst kv = k then (k, v) # kvs else kv # dict_set k v kvs)"

text \<open>One round of the grouping loop (main.py 404-413): a key not yet present starts
  from the zero bucket, then the sale is added to it, its amount by float addition.\<close>

definition add_sale :: "date \<Rightarrow> Sale \<Rightarrow> (date \<times> bucket) list \<Rightarrow> (date \<times> bucket) list" where
  "add_sale key sale grouped_sales =
     (let data = (case map_of grouped_sales key of
                    None \<Rightarrow> \<lparr>b_total_revenue = 0, b_total_sales = 0, b_sales_count = 0\<rparr>
                  | Some b \<Rightarrow> b)
      in dict_set key
           (data\<lparr>b_total_revenue := float_add (b_total_revenue data) (s_total_amount sale),
                 b_total_sales := b_total_sales data + s_quantity sale,
                 b_sales_count := b_sales_count data + 1\<rparr>)
           grouped_sales)"

fun group_sales ::
  "PeriodType \<Rightarrow> Sale list \<Rightarrow> (date \<times> bucket) list \<Rightarrow> error + (date \<times> bucket) list" where
  "group_sales p [] grouped_sales = Inr grouped_sales"
| "group_sales p (sale # rest) grouped_sales =
     (case bucket_key p sale of
        Inl e \<Rightarrow> Inl e
      | Inr key \<Rightarrow> group_sales p rest (add_sale key sale grouped_sales))"

text \<open>The end of a bucket (main.py 420-428), branch by branch as written. In the
  monthly and annual branches \<^verbatim>\<open>date_key\<close> is a \<^verbatim>\<open>date\<close> and stays one: the monthly
  branch ends in \<^verbatim>\<open>replace(hour=23, minute=59, second=59)\<close> on a \<^verbatim>\<open>date\<close>, the annual
  branch subtracts \<^verbatim>\<open>timedelta(seconds=1)\<close> from a \<^verbatim>\<open>date\<close>.\<close>

definition period_end :: "PeriodType \<Rightarrow> date \<Rightarrow> error + temporal" where
  "period_end p date_key =
     (case p of
        daily \<Rightarrow>
          and_then (datetime_add (combine_min date_key) (mk_timedelta 1 0)) (\<lambda>t.
          and_then (datetime_sub t (mk_timedelta 0 1)) (\<lambda>t. Inr (Datetime t)))
      | weekly \<Rightarrow>
          and_then (datetime_add (combine_min date_key) (mk_timedelta 7 0)) (\<lambda>t.
          and_then (datetime_sub t (mk_timedelta 0 1)) (\<lambda>t. Inr (Datetime t)))
      | monthly \<Rightarrow>
          and_then (new_date (year date_key) (month date_key) 28) (\<lambda>d28.
          and_then (date_add d28 (mk_timedelta 4 0)) (\<lambda>next_month.
          and_then (date_sub next_month (mk_timedelta (day next_month) 0)) (\<lambda>last_day.
          replace_hms (Date last_day) 23 59 59)))
      | annual \<Rightarrow>
          and_then (new_date (year date_key + 1) (month date_key) (day date_key)) (\<lambda>d.
          and_then (date_sub d (mk_timedelta 0 1)) (\<lambda>d. Inr (Date d))))"

text \<open>The loop that builds the response (main.py 416-437); the average is the float
  quotient of the total by the count, whose \<^verbatim>\<open>int\<close> operand is converted first; the
  first bucket whose end raises ends the handler.\<close>

fun build_result :: "PeriodType \<Rightarrow> (date \<times> bucket) list \<Rightarrow> error + RevenueAnalysis list" where
  "build_result p [] = Inr []"
| "build_result p ((date_key, data) # items) =
     (case (if b_sales_count data > 0
            then and_then (float_of_int (b_sales_count data))
                   (\<lambda>n. Inr (float_div (b_total_revenue data) n))
            else Inr 0) of
        Inl e \<Rightarrow> Inl e
      | Inr avg_order_value \<Rightarrow>
          (case period_end p date_key of
             Inl e \<Rightarrow> Inl e
           | Inr pe \<Rightarrow>
               (case build_result p items of
                  Inl e \<Rightarrow> Inl e
                | Inr result \<Rightarrow>
                    Inr (\<lparr>r_period = p,
                          r_total_revenue = b_total_revenue data,
                          r_total_sales = b_total_sales data,
                          r_average_order_value = avg_order_value,
                          r_start_date = combine_min date_key,
                          r_end_date = pe\<rparr> # result))))"

text \<open>The sales the aggregation reads (main.py 381-389): sale date within
  \<open>[start_date, end_date]\<close>, and the category and platform filters when truthy.\<close>

definition revenue_sales ::
  "datetime \<Rightarrow> datetime \<Rightarrow> int option \<Rightarrow> string option \<Rightarrow> db \<Rightarrow> Sale list" where
  "revenue_sales start_date end_date category_id platform s =
     (let query = sale_join_product s;
          query = filter (\<lambda>(sale, p). dt_key (s_sale_date sale) \<ge> dt_key start_date \<and>
                                       dt_key (s_sale_date sale) \<le> dt_key end_date) query;
          query = (if truthy_int category_id
                   then filter (\<lambda>(sale, p). Some (p_category_id p) = category_id) query
                   else query);
          query = (if truthy_str platform
                   then filter (\<lambda>(sale, p). Some (s_platform sale) = platform) query
                   else query)
      in map fst query)"

text \<open>\<^verbatim>\<open>get_revenue_analysis\<close> (main.py 367-439). \<open>now1\<close> and \<open>now2\<close> are the two readings
  of the clock (\<^verbatim>\<open>datetime.utcnow()\<close>) that stand in for a missing bound.\<close>

definition get_revenue_analysis ::
  "PeriodType \<Rightarrow> datetime option \<Rightarrow> datetime option \<Rightarrow> int option \<Rightarrow> string option \<Rightarrow>
   datetime \<Rightarrow> datetime \<Rightarrow> db \<Rightarrow> error + RevenueAnalysis list" where
  "get_revenue_analysis p start_date end_date category_id platform now1 now2 s =
     and_then (case start_date of None \<Rightarrow> datetime_sub now1 (mk_timedelta 30 0)
               | Some d \<Rightarrow> Inr d) (\<lambda>start_date.
       let end_date = (case end_date of None \<Rightarrow> now2 | Some d \<Rightarrow> d);
           sales = revenue_sales start_date end_date category_id platform s
       in and_then (group_sales p sales []) (\<lambda>grouped_sales.
          and_then (build_result p grouped_sales) (\<lambda>result.
          Inr (sort_key (\<lambda>x. dt_key (r_start_date x)) result))))"

section \<open>Auxiliary definitions\<close>

text \<open>The month and day that \<open>ord2ymd\<close> computes from the day of the year (counted
  from 0) and the leap flag, named on their own for the proofs.\<close>

definition month_day :: "bool \<Rightarrow> int \<Rightarrow> int \<times> int" where
  "month_day leapyear n =
     (let m = (n + 50) div 32;
          preceding = DAYS_BEFORE_MONTH ! nat m + (if m > 2 \<and> leapyear then 1 else 0)
      in if preceding > n
         then let m' = m - 1;
                  preceding' = preceding
                    - (DAYS_IN_MONTH ! nat m' + (if m' = 2 \<and> leapyear then 1 else 0))
              in (m', n - preceding' + 1)
         else (m, n - preceding + 1))"

text \<open>No inventory row holds a negative quantity.\<close>

definition stock_nonneg :: "db \<Rightarrow> bool" where
  "stock_nonneg s = list_all (\<lambda>i. 0 \<le> i_quantity i) (inventories s)"

text \<open>A small store for the concrete cases: one category, one product with SKU
  \<open>X-1\<close> and 5 units in stock, and one sale of 2 units at 10 on Friday 2024-05-10.\<close>

definition at_time :: "int \<Rightarrow> int \<Rightarrow> int \<Rightarrow> int \<Rightarrow> int \<Rightarrow> int \<Rightarrow> datetime" where
  "at_time y m d h mi sec =
     \<lparr>date_part = \<lparr>year = y, month = m, day = d\<rparr>, hour = h, minute = mi, second = sec,
      microsecond = 0\<rparr>"

definition example_sale :: Sale where
  "example_sale =
     \<lparr>s_id = 1, s_product_id = 1, s_quantity = 2, s_unit_price = 10, s_total_amount = 20,
      s_sale_date = at_time 2024 5 10 13 45 0, s_platform = ''Amazon'', s_order_id = None\<rparr>"

definition example_product :: Product where
  "example_product =
     \<lparr>p_id = 1, p_name = ''Atomic Habits'', p_description = None, p_price = 10,
      p_sku = ''X-1'', p_category_id = 1, p_platform = ''Amazon'', p_is_active = True\<rparr>"

definition example_inventory :: Inventory where
  "example_inventory = \<lparr>i_id = 1, i_product_id = 1, i_quantity = 5, i_low_stock_threshold = 10\<rparr>"

definition example_db :: db where
  "example_db =
     \<lparr>categories = [\<lparr>c_id = 1, c_name = ''Books'', c_description = None\<rparr>],
      products = [example_product],
      inventories = [example_inventory],
      sales = [example_sale]\<rparr>"


text \<open>A sale of 8 units of product 1, more than the 5 in stock.\<close>

definition oversell :: SaleCreate where
  "oversell =
     \<lparr>sc_product_id = 1, sc_quantity = 8, sc_unit_price = 10,
      sc_sale_date = at_time 2024 5 11 9 0 0, sc_platform = ''Amazon'', sc_order_id = None\<rparr>"




text \<open>A second product with the SKU \<open>X-1\<close>, in the existing category 1 and in a
  category 99 that does not exist.\<close>

definition same_sku :: ProductCreate where
  "same_sku =
     \<lparr>pc_name = ''Copy'', pc_description = None, pc_price = 12, pc_sku = ''X-1'',
      pc_category_id = 1, pc_platform = ''Walmart'', pc_initial_stock = Some 3,
      pc_low_stock_threshold = None\<rparr>"

definition same_sku_no_category :: ProductCreate where
  "same_sku_no_category = same_sku\<lparr>pc_category_id := 99\<rparr>"

definition negative_update :: InventoryUpdate where
  "negative_update = \<lparr>iu_quantity = - 5, iu_low_stock_threshold = None\<rparr>"

definition restock :: InventoryUpdate where
  "restock = \<lparr>iu_quantity = 40, iu_low_stock_threshold = Some 8\<rparr>"

text \<open>A product with a SKU the store does not hold yet.\<close>

definition fresh_sku :: ProductCreate where
  "fresh_sku = same_sku\<lparr>pc_sku := ''Y-2''\<rparr>"

text \<open>The same product with an initial stock of \<open>-3\<close>.\<close>

definition negative_stock :: ProductCreate where
  "negative_stock = fresh_sku\<lparr>pc_initial_stock := Some (- 3)\<rparr>"

text \<open>The bounds of May 2024, and a reading of the clock after it.\<close>

definition may_first :: datetime where
  "may_first = at_time 2024 5 1 0 0 0"

definition may_last :: datetime where
  "may_last = at_time 2024 5 31 23 59 59"

definition june_first :: datetime where
  "june_first = at_time 2024 6 1 0 0 0"

section \<open>The calendar: ordinals and their inverse\<close>

lemma month_cases:
  fixes m :: int
  assumes "1 \<le> m" "m \<le> 12"
  obtains "m = 1" | "m = 2" | "m = 3" | "m = 4" | "m = 5" | "m = 6"
    | "m = 7" | "m = 8" | "m = 9" | "m = 10" | "m = 11" | "m = 12"
proof -
  from assms have "m = 1 \<or> m = 2 \<or> m = 3 \<or> m = 4 \<or> m = 5 \<or> m = 6 \<or>
             m = 7 \<or> m = 8 \<or> m = 9 \<or> m = 10 \<or> m = 11 \<or> m = 12"
    by presburger
  then show thesis using that by blast
qed

lemma ord2ymd_month_day:
  "ord2ymd n0 =
     (let n = n0 - 1;
          n400 = n div 146097; n = n mod 146097;
          n100 = n div 36524; n = n mod 36524;
          n4 = n div 1461; n = n mod 1461;
          n1 = n div 365; n = n mod 365;
          y = n400 * 400 + 1 + n100 * 100 + n4 * 4 + n1
      in if n1 = 4 \<or> n100 = 4 then (y - 1, 12, 31)
         else case month_day (n1 = 3 \<and> (n4 \<noteq> 24 \<or> n100 = 3)) n of (m, d) \<Rightarrow> (y, m, d))"
  unfolding ord2ymd_def month_day_def Let_def
  by (simp only: if_distrib [where f = "case_prod _"] prod.case)

lemma month_day_props:
  assumes "0 \<le> r" "r \<le> 364"
  shows "case month_day L r of (m, d) \<Rightarrow>
           1 \<le> m \<and> m \<le> 12 \<and>
           DAYS_BEFORE_MONTH ! nat m + (if m > 2 \<and> L then 1 else 0) + d = r + 1 \<and>
           1 \<le> d \<and> d \<le> (if m = 2 \<and> L then 29 else DAYS_IN_MONTH ! nat m)"
proof -
  define m where "m = (r + 50) div 32"
  have eq: "r + 50 = 32 * m + (r + 50) mod 32"
    unfolding m_def by (rule mult_div_mod_eq [symmetric])
  have "0 \<le> (r + 50) mod 32" "(r + 50) mod 32 < 32" by simp_all
  with eq have lo: "32 * m \<le> r + 50" and hi: "r + 50 < 32 * m + 32" by linarith+
  have "1 \<le> m" "m \<le> 12" using lo hi assms by linarith+
  then show ?thesis
    using lo hi assms
    by (cases m rule: month_cases)
       (simp_all add: month_day_def Let_def m_def [symmetric] DAYS_BEFORE_MONTH_def
          DAYS_IN_MONTH_def)
qed

lemma ord2ymd_cases:
  assumes "1 \<le> n"
  obtains
    (century_end) k where "0 \<le> k" "n = 146097 * k + 146097"
      "ord2ymd n = (400 * k + 400, 12, 31)"
  | (cycle_end) k c q where "0 \<le> k" "0 \<le> c" "c \<le> 3" "0 \<le> q" "q \<le> 23"
      "n = 146097 * k + 36524 * c + 1461 * q + 1461"
      "ord2ymd n = (400 * k + 100 * c + 4 * q + 4, 12, 31)"
  | (inner) k c q e r where "0 \<le> k" "0 \<le> c" "c \<le> 3" "0 \<le> q" "q \<le> 24"
      "0 \<le> e" "e \<le> 3" "0 \<le> r" "r \<le> 364"
      "n = 146097 * k + 36524 * c + 1461 * q + 365 * e + r + 1"
      "ord2ymd n = (case month_day (e = 3 \<and> (q \<noteq> 24 \<or> c = 3)) r of
                      (m, d) \<Rightarrow> (400 * k + 100 * c + 4 * q + e + 1, m, d))"
proof -
  define a where "a = n - 1"
  define k where "k = a div 146097"
  define r400 where "r400 = a mod 146097"
  define c where "c = r400 div 36524"
  define r100 where "r100 = r400 mod 36524"
  define q where "q = r100 div 1461"
  define r4 where "r4 = r100 mod 1461"
  define e where "e = r4 div 365"
  define r where "r = r4 mod 365"
  have a0: "0 \<le> a" using assms by (simp add: a_def)
  have e1: "a = 146097 * k + r400" unfolding k_def r400_def by (rule mult_div_mod_eq [symmetric])
  have e2: "r400 = 36524 * c + r100" unfolding c_def r100_def by (rule mult_div_mod_eq [symmetric])
  have e3: "r100 = 1461 * q + r4" unfolding q_def r4_def by (rule mult_div_mod_eq [symmetric])
  have e4: "r4 = 365 * e + r" unfolding e_def r_def by (rule mult_div_mod_eq [symmetric])
  have b1: "0 \<le> r400" "r400 < 146097" unfolding r400_def by simp_all
  have b2: "0 \<le> r100" "r100 < 36524" unfolding r100_def by simp_all
  have b3: "0 \<le> r4" "r4 < 1461" unfolding r4_def by simp_all
  have b4: "0 \<le> r" "r < 365" unfolding r_def by simp_all
  have k0: "0 \<le> k" using a0 e1 b1 by linarith
  have c0: "0 \<le> c" "c \<le> 4" using e2 b1 b2 by linarith+
  have q0: "0 \<le> q" "q \<le> 24" using e3 b2 b3 by linarith+
  have e0: "0 \<le> e" "e \<le> 4" using e4 b3 b4 by linarith+
  have ord: "ord2ymd n =
      (if e = 4 \<or> c = 4 then (k * 400 + 1 + c * 100 + q * 4 + e - 1, 12, 31)
       else case month_day (e = 3 \<and> (q \<noteq> 24 \<or> c = 3)) r of
              (m, d) \<Rightarrow> (k * 400 + 1 + c * 100 + q * 4 + e, m, d))"
    unfolding ord2ymd_month_day Let_def a_def k_def r400_def c_def r100_def q_def r4_def
      e_def r_def ..
  show thesis
  proof (cases "c = 4")
    case True
    then have "r100 = 0" using e2 b1 b2 by linarith
    then have "q = 0" "r4 = 0" using e3 b3 q0 by linarith+
    then have "e = 0" "r = 0" using e4 b4 e0 by linarith+
    show thesis
    proof (rule century_end [of k])
      show "0 \<le> k" by (rule k0)
      show "n = 146097 * k + 146097"
        using e1 e2 True \<open>r100 = 0\<close> by (simp add: a_def)
      show "ord2ymd n = (400 * k + 400, 12, 31)"
        using ord True \<open>q = 0\<close> \<open>e = 0\<close> by simp
    qed
  next
    case c4: False
    then have c3: "c \<le> 3" using c0 by linarith
    show thesis
    proof (cases "e = 4")
      case True
      then have "r = 0" using e4 b3 b4 by linarith
      have "q \<le> 23" using e3 e4 True b2 b4 by linarith
      show thesis
      proof (rule cycle_end [of k c q])
        show "n = 146097 * k + 36524 * c + 1461 * q + 1461"
          using e1 e2 e3 e4 True \<open>r = 0\<close> by (simp add: a_def)
        show "ord2ymd n = (400 * k + 100 * c + 4 * q + 4, 12, 31)"
          using ord True by simp
      qed (use k0 c0 c3 q0 \<open>q \<le> 23\<close> in auto)
    next
      case False
      then have e3': "e \<le> 3" using e0 by linarith
      show thesis
      proof (rule inner [of k c q e r])
        show "n = 146097 * k + 36524 * c + 1461 * q + 365 * e + r + 1"
          using e1 e2 e3 e4 by (simp add: a_def)
        show "ord2ymd n = (case month_day (e = 3 \<and> (q \<noteq> 24 \<or> c = 3)) r of
                      (m, d) \<Rightarrow> (400 * k + 100 * c + 4 * q + e + 1, m, d))"
          using ord False c4 by (simp add: algebra_simps)
      qed (use k0 c0 c3 q0 e0 e3' b4 in auto)
    qed
  qed
qed



lemma days_before_year_decomp:
  fixes k c q e :: int
  assumes "0 \<le> c" "c \<le> 3" "0 \<le> q" "q \<le> 24" "0 \<le> e" "e \<le> 3"
  shows "days_before_year (400 * k + 100 * c + 4 * q + e + 1) =
           146097 * k + 36524 * c + 1461 * q + 365 * e"
proof -
  let ?x = "400 * k + 100 * c + 4 * q + e"
  have d4: "?x div 4 = 100 * k + 25 * c + q"
    by (rule int_div_pos_eq [where r = e]) (use assms in auto)
  have d100: "?x div 100 = 4 * k + c"
    by (rule int_div_pos_eq [where r = "4 * q + e"]) (use assms in auto)
  have d400: "?x div 400 = k"
    by (rule int_div_pos_eq [where r = "100 * c + 4 * q + e"]) (use assms in auto)
  show ?thesis
    unfolding days_before_year_def Let_def
    using d4 d100 d400 by simp
qed

lemma is_leap_decomp:
  fixes k c q e :: int
  assumes "0 \<le> c" "c \<le> 3" "0 \<le> q" "q \<le> 24" "0 \<le> e" "e \<le> 3"
  shows "is_leap (400 * k + 100 * c + 4 * q + e + 1) \<longleftrightarrow> (e = 3 \<and> (q \<noteq> 24 \<or> c = 3))"
proof -
  let ?y = "400 * k + 100 * c + 4 * q + e + 1"
  have m4: "?y mod 4 = (e + 1) mod 4"
  proof -
    have "?y = (e + 1) + (100 * k + 25 * c + q) * 4" by simp
    then show ?thesis by (metis mod_mult_self1)
  qed
  have m100: "?y mod 100 = (4 * q + e + 1) mod 100"
  proof -
    have "?y = (4 * q + e + 1) + (4 * k + c) * 100" by simp
    then show ?thesis by (metis mod_mult_self1)
  qed
  have m400: "?y mod 400 = (100 * c + 4 * q + e + 1) mod 400"
  proof -
    have "?y = (100 * c + 4 * q + e + 1) + k * 400" by simp
    then show ?thesis by (metis mod_mult_self1)
  qed
  have e4: "(e + 1) mod 4 = 0 \<longleftrightarrow> e = 3" using assms by presburger
  show ?thesis
  proof (cases "e = 3")
    case False
    then show ?thesis unfolding is_leap_def m4 e4 by simp
  next
    case True
    have r100: "0 \<le> 4 * q + e + 1" "4 * q + e + 1 \<le> 100" using assms True by auto
    have a: "(4 * q + e + 1) mod 100 = 0 \<longleftrightarrow> q = 24"
    proof (cases "q = 24")
      case True
      then show ?thesis using \<open>e = 3\<close> by simp
    next
      case False
      then have "4 * q + e + 1 < 100" "0 < 4 * q + e + 1" using assms \<open>e = 3\<close> by auto
      then show ?thesis using False by simp
    qed
    have b: "(100 * c + 4 * q + e + 1) mod 400 = 0 \<longleftrightarrow> (q = 24 \<and> c = 3)"
    proof (cases "q = 24 \<and> c = 3")
      case True
      then show ?thesis using \<open>e = 3\<close> by simp
    next
      case False
      then have "100 * c + 4 * q + e + 1 < 400" "0 < 100 * c + 4 * q + e + 1"
        using assms \<open>e = 3\<close> by auto
      then show ?thesis using False by simp
    qed
    show ?thesis unfolding is_leap_def m4 m100 m400 e4 a b using True by auto
  qed
qed


lemma ymd2ord_ord2ymd:
  assumes "1 \<le> n"
  shows "case ord2ymd n of (y, m, d) \<Rightarrow>
           ymd2ord y m d = n \<and> 1 \<le> y \<and> 1 \<le> m \<and> m \<le> 12 \<and> 1 \<le> d \<and> d \<le> days_in_month y m"
  using assms
proof (cases n rule: ord2ymd_cases)
  case (century_end k)
  have y: "400 * k + 400 = 400 * k + 100 * 3 + 4 * 24 + 3 + 1" by simp
  have "days_before_year (400 * k + 400) = 146097 * k + 36524 * 3 + 1461 * 24 + 365 * 3"
    unfolding y by (rule days_before_year_decomp) simp_all
  moreover have "is_leap (400 * k + 400)"
    unfolding y by (subst is_leap_decomp) simp_all
  ultimately show ?thesis
    using century_end
    by (simp add: ymd2ord_def days_before_month_def days_in_month_def
        DAYS_BEFORE_MONTH_def DAYS_IN_MONTH_def)
next
  case (cycle_end k c q)
  have y: "400 * k + 100 * c + 4 * q + 4 = 400 * k + 100 * c + 4 * q + 3 + 1" by simp
  have "days_before_year (400 * k + 100 * c + 4 * q + 4) =
          146097 * k + 36524 * c + 1461 * q + 365 * 3"
    unfolding y by (rule days_before_year_decomp) (use cycle_end in simp_all)
  moreover have "is_leap (400 * k + 100 * c + 4 * q + 4)"
    unfolding y by (subst is_leap_decomp) (use cycle_end in simp_all)
  ultimately show ?thesis
    using cycle_end
    by (simp add: ymd2ord_def days_before_month_def days_in_month_def
        DAYS_BEFORE_MONTH_def DAYS_IN_MONTH_def)
next
  case (inner k c q e r)
  let ?y = "400 * k + 100 * c + 4 * q + e + 1"
  let ?L = "e = 3 \<and> (q \<noteq> 24 \<or> c = 3)"
  have dby: "days_before_year ?y = 146097 * k + 36524 * c + 1461 * q + 365 * e"
    by (rule days_before_year_decomp) (use inner in simp_all)
  have leap: "is_leap ?y = ?L"
    by (rule is_leap_decomp) (use inner in simp_all)
  obtain m d where md: "month_day ?L r = (m, d)" by (cases "month_day ?L r")
  from month_day_props [of r ?L] inner md
  have p: "1 \<le> m" "m \<le> 12"
      "DAYS_BEFORE_MONTH ! nat m + (if m > 2 \<and> ?L then 1 else 0) + d = r + 1"
      "1 \<le> d" "d \<le> (if m = 2 \<and> ?L then 29 else DAYS_IN_MONTH ! nat m)"
    by simp_all
  have "ymd2ord ?y m d = n"
    unfolding ymd2ord_def days_before_month_def dby leap using p(3) inner(10) by linarith
  moreover have "d \<le> days_in_month ?y m"
    unfolding days_in_month_def leap using p(5) by simp
  moreover have "1 \<le> ?y" using inner by linarith
  ultimately show ?thesis using inner(11) md p by simp
qed

lemma toordinal_fromordinal: "1 \<le> n \<Longrightarrow> toordinal (fromordinal n) = n"
  using ymd2ord_ord2ymd [of n]
  by (auto simp: toordinal_def fromordinal_def split: prod.splits)

lemma days_before_year_lower:
  assumes "10000 \<le> y"
  shows "3652059 \<le> days_before_year y"
proof -
  define x where "x = y - 1"
  have "x = 4 * (x div 4) + x mod 4" "0 \<le> x mod 4" "x mod 4 < 4"
       "x = 100 * (x div 100) + x mod 100" "0 \<le> x mod 100" "x mod 100 < 100"
       "x = 400 * (x div 400) + x mod 400" "0 \<le> x mod 400" "x mod 400 < 400"
    by simp_all
  moreover have "9999 \<le> x" using assms by (simp add: x_def)
  ultimately show ?thesis
    unfolding days_before_year_def Let_def x_def [symmetric] by linarith
qed

lemma days_before_month_nonneg:
  assumes "1 \<le> m" "m \<le> 12"
  shows "0 \<le> days_before_month y m"
  using assms
  by (cases m rule: month_cases) (simp_all add: days_before_month_def DAYS_BEFORE_MONTH_def)

lemma day_of_year_bound:
  assumes "1 \<le> m" "m \<le> 12" "d \<le> days_in_month y m"
  shows "days_before_month y m + d \<le> 365 + (if is_leap y then 1 else 0)"
  using assms
  by (cases m rule: month_cases)
     (auto simp: days_before_month_def days_in_month_def DAYS_BEFORE_MONTH_def
        DAYS_IN_MONTH_def split: if_splits)

lemma days_before_year_bounds:
  assumes "1 \<le> y" "y \<le> 9999"
  shows "0 \<le> days_before_year y"
    and "days_before_year y + 365 + (if is_leap y then 1 else 0) \<le> 3652059"
proof -
  define x where "x = y - 1"
  have dm: "x = 4 * (x div 4) + x mod 4" "0 \<le> x mod 4" "x mod 4 < 4"
       "x = 100 * (x div 100) + x mod 100" "0 \<le> x mod 100" "x mod 100 < 100"
       "x = 400 * (x div 400) + x mod 400" "0 \<le> x mod 400" "x mod 400 < 400"
    by simp_all
  have x: "0 \<le> x" "x \<le> 9998" using assms by (simp_all add: x_def)
  have nn: "0 \<le> x div 4" "0 \<le> x div 400" using x(1) by simp_all
  show "0 \<le> days_before_year y"
    unfolding days_before_year_def Let_def x_def [symmetric] using dm x nn by linarith
  show "days_before_year y + 365 + (if is_leap y then 1 else 0) \<le> 3652059"
  proof (cases "y = 9999")
    case True
    then show ?thesis by (simp add: days_before_year_def is_leap_def)
  next
    case False
    then have "x \<le> 9997" using x by (simp add: x_def)
    then have "days_before_year y + 366 \<le> 3652059"
      unfolding days_before_year_def Let_def x_def [symmetric] using dm x by linarith
    then show ?thesis by simp
  qed
qed

lemma toordinal_range:
  assumes "valid_date d"
  shows "1 \<le> toordinal d" and "toordinal d \<le> MAXORDINAL"
proof -
  from assms have v: "1 \<le> year d" "year d \<le> 9999" "1 \<le> month d" "month d \<le> 12"
      "1 \<le> day d" "day d \<le> days_in_month (year d) (month d)"
    by (simp_all add: valid_date_def MINYEAR_def MAXYEAR_def)
  note b = days_before_year_bounds [OF v(1,2)]
  show "1 \<le> toordinal d"
    using b(1) days_before_month_nonneg [OF v(3,4), of "year d"] v(5)
    by (simp add: toordinal_def ymd2ord_def)
  show "toordinal d \<le> MAXORDINAL"
    using b(2) day_of_year_bound [OF v(3,4,6)]
    by (simp add: toordinal_def ymd2ord_def MAXORDINAL_def split: if_splits)
qed

lemma fromordinal_valid:
  assumes "1 \<le> n" "n \<le> MAXORDINAL"
  shows "valid_date (fromordinal n)"
proof -
  obtain y m d where o: "ord2ymd n = (y, m, d)" by (cases "ord2ymd n")
  with ymd2ord_ord2ymd [OF assms(1)]
  have p: "ymd2ord y m d = n" "1 \<le> y" "1 \<le> m" "m \<le> 12" "1 \<le> d" "d \<le> days_in_month y m"
    by simp_all
  have "y \<le> 9999"
  proof (rule ccontr)
    assume "\<not> y \<le> 9999"
    then have "3652059 \<le> days_before_year y" by (intro days_before_year_lower) simp
    moreover have "0 \<le> days_before_month y m"
      using p(3,4) by (rule days_before_month_nonneg)
    ultimately show False using p(1,5) assms(2) by (simp add: ymd2ord_def MAXORDINAL_def)
  qed
  then show ?thesis using p o by (simp add: valid_date_def fromordinal_def MINYEAR_def MAXYEAR_def)
qed


lemma monday_of_week:
  assumes "valid_date d"
  shows "\<exists>k. date_sub d (mk_timedelta (weekday d) 0) = Inr k \<and> valid_date k \<and>
           toordinal k = toordinal d - weekday d \<and> weekday k = 0"
proof -
  let ?t = "toordinal d"
  let ?w = "(?t + 6) mod 7"
  note r = toordinal_range [OF assms]
  have w: "0 \<le> ?w" "?w < 7" by simp_all
  have "?t - ?w = 7 * ((?t + 6) div 7) - 6"
    using mult_div_mod_eq [of 7 "?t + 6"] by linarith
  moreover have "1 \<le> (?t + 6) div 7" using r(1) by simp
  ultimately have lo: "1 \<le> ?t - ?w" by linarith
  have hi: "?t - ?w \<le> MAXORDINAL" using r(2) w by linarith
  have m: "(?t - ?w + 6) mod 7 = 0" by presburger
  show ?thesis
    using lo hi m fromordinal_valid [OF lo hi] toordinal_fromordinal [OF lo]
    by (simp add: date_sub_def date_add_def mk_timedelta_def weekday_def Let_def)
qed

section \<open>Floats: the conversion of integers\<close>







section \<open>Queries and row updates\<close>



lemma first_None_iff: "first P rows = None \<longleftrightarrow> \<not> (\<exists>x\<in>set rows. P x)"
  by (auto simp: first_def find_None_iff)

lemma first_Some_holds: "first P rows = Some x \<Longrightarrow> x \<in> set rows \<and> P x"
  by (auto simp: first_def find_Some_iff)

lemma list_all_set_quantity:
  "list_all (\<lambda>i. 0 \<le> i_quantity i) rows \<Longrightarrow> 0 \<le> q \<Longrightarrow>
   list_all (\<lambda>i. 0 \<le> i_quantity i) (set_quantity pk q rows)"
  by (induction rows) (auto simp: set_quantity_def)

lemma list_all_set_threshold:
  "list_all (\<lambda>i. 0 \<le> i_quantity i) (set_threshold pk t rows) =
   list_all (\<lambda>i. 0 \<le> i_quantity i) rows"
  by (induction rows) (auto simp: set_threshold_def)

section \<open>Sales and stock\<close>








text \<open>
  Claim C6, as amended. Starting from a store in which no inventory quantity is
  negative: \<open>create_sale\<close> always leaves such a store; \<open>update_inventory\<close> does when
  the quantity of the request is not negative, and \<open>create_product\<close> does when the
  initial stock of the request is not negative. Neither of the two clamps or rejects
  a negative value.
\<close>

theorem stock_nonneg_preserved:
  assumes "stock_nonneg s"
  shows "stock_nonneg (snd (create_sale sale s)) \<and>
         (0 \<le> iu_quantity inventory_update \<longrightarrow>
            stock_nonneg (snd (update_inventory product_id inventory_update s))) \<and>
         ((case pc_initial_stock product of None \<Rightarrow> True | Some q \<Rightarrow> 0 \<le> q) \<longrightarrow>
            stock_nonneg (snd (create_product product s)))"
proof (intro conjI impI)
  show "stock_nonneg (snd (create_sale sale s))"
    using assms
    by (auto simp: create_sale_def stock_nonneg_def Let_def list_all_set_quantity
        split: option.splits sum.splits)
next
  assume "0 \<le> iu_quantity inventory_update"
  then show "stock_nonneg (snd (update_inventory product_id inventory_update s))"
    using assms
    by (auto simp: update_inventory_def stock_nonneg_def Let_def list_all_set_quantity
        list_all_set_threshold split: option.splits)
next
  assume "case pc_initial_stock product of None \<Rightarrow> True | Some q \<Rightarrow> 0 \<le> q"
  then show "stock_nonneg (snd (create_product product s))"
    using assms
    by (auto simp: create_product_def stock_nonneg_def Let_def split: option.splits)
qed

theorem stock_nonneg_preserved_witness:
  "stock_nonneg example_db \<and>
   stock_nonneg (snd (create_sale oversell example_db)) \<and>
   0 \<le> iu_quantity restock \<and>
   stock_nonneg (snd (update_inventory 1 restock example_db)) \<and>
   (case pc_initial_stock fresh_sku of None \<Rightarrow> True | Some q \<Rightarrow> 0 \<le> q) \<and>
   stock_nonneg (snd (create_product fresh_sku example_db))"
proof -
  have h: "stock_nonneg example_db"
    by (simp add: stock_nonneg_def example_db_def example_inventory_def)
  have h2: "0 \<le> iu_quantity restock" by (simp add: restock_def)
  have h3: "case pc_initial_stock fresh_sku of None \<Rightarrow> True | Some q \<Rightarrow> 0 \<le> q"
    by (simp add: fresh_sku_def same_sku_def)
  show ?thesis
    using h h2 h3 stock_nonneg_preserved [OF h, of oversell restock 1 fresh_sku] by blast
qed

text \<open>The claim as stated fails at \<open>update_inventory\<close>: a request with quantity \<open>-5\<close>
  is stored as it is. So is an initial stock of \<open>-3\<close> by \<open>create_product\<close>.\<close>

theorem update_inventory_stores_negative:
  "stock_nonneg example_db \<and>
   \<not> stock_nonneg (snd (update_inventory 1 negative_update example_db)) \<and>
   map i_quantity (inventories (snd (update_inventory 1 negative_update example_db))) = [- 5] \<and>
   \<not> stock_nonneg (snd (create_product negative_stock example_db)) \<and>
   map i_quantity (inventories (snd (create_product negative_stock example_db))) = [5, - 3]"
  by (simp add: stock_nonneg_def update_inventory_def create_product_def example_db_def
      example_inventory_def example_product_def negative_update_def negative_stock_def
      fresh_sku_def same_sku_def first_def set_quantity_def next_id_def fits_integer_def
      fits_string_def Let_def)

section \<open>Catalog: duplicates and filters\<close>

lemma create_category_duplicate:
  "fits_string 100 (cc_name category) \<Longrightarrow>
   \<exists>c\<in>set (categories s). c_name c = cc_name category \<Longrightarrow>
   create_category category s = (Inl IntegrityError, s)"
  by (simp add: create_category_def Let_def list_ex_iff)

lemma create_category_fresh:
  "fits_string 100 (cc_name category) \<Longrightarrow>
   \<not> (\<exists>c\<in>set (categories s). c_name c = cc_name category) \<Longrightarrow>
   \<exists>db_category. create_category category s =
     (Inr db_category, s\<lparr>categories := categories s @ [db_category]\<rparr>) \<and>
     c_name db_category = cc_name category"
  by (simp add: create_category_def Let_def list_ex_iff)

text \<open>
  Claim C7. The claim asks for a typed validation error when the name of the new
  category is already taken. The handler adds the row and commits; the store rejects
  the second \<open>Books\<close> through the uniqueness of the \<^verbatim>\<open>name\<close> column, and the
  \<open>IntegrityError\<close> of the commit is what the handler ends with. The store is left as
  it was.
\<close>

theorem create_category_duplicate_name_raises:
  "map c_name (categories example_db) = [''Books''] \<and>
   create_category \<lparr>cc_name = ''Books'', cc_description = None\<rparr> example_db =
     (Inl IntegrityError, example_db)"
  by (simp add: create_category_def example_db_def fits_string_def Let_def)

text \<open>
  Claim C8, as amended. When the store holds a product with the SKU of the request,
  \<open>create_product\<close> fails and leaves the store as it was: with the conflict (status
  400, "SKU already exists") when the category of the request exists, and with status
  404 ("Category not found") when it does not, since the category is checked first.
\<close>

theorem create_product_duplicate_sku:
  assumes "\<exists>p\<in>set (products s). p_sku p = pc_sku product"
  shows "create_product product s =
           (if \<exists>c\<in>set (categories s). c_id c = pc_category_id product
            then (Inl (HTTPException 400 ''SKU already exists''), s)
            else (Inl (HTTPException 404 ''Category not found''), s))"
proof (cases "first (\<lambda>c. c_id c = pc_category_id product) (categories s)")
  case None
  then show ?thesis
    using first_None_iff [of "\<lambda>c. c_id c = pc_category_id product" "categories s"]
    by (simp add: create_product_def)
next
  case (Some category)
  then have c: "\<exists>c\<in>set (categories s). c_id c = pc_category_id product"
    using first_Some_holds by fastforce
  from assms obtain existing_product
    where "first (\<lambda>p. p_sku p = pc_sku product) (products s) = Some existing_product"
    using first_None_iff [of "\<lambda>p. p_sku p = pc_sku product" "products s"] by auto
  then show ?thesis
    using Some c by (simp add: create_product_def)
qed

theorem create_product_duplicate_sku_witness:
  "(\<exists>p\<in>set (products example_db). p_sku p = pc_sku same_sku) \<and>
   create_product same_sku example_db =
     (Inl (HTTPException 400 ''SKU already exists''), example_db)"
proof -
  have h: "\<exists>p\<in>set (products example_db). p_sku p = pc_sku same_sku"
    by (simp add: example_db_def example_product_def same_sku_def)
  have c: "\<exists>c\<in>set (categories example_db). c_id c = pc_category_id same_sku"
    by (simp add: example_db_def same_sku_def)
  show ?thesis
    using h c create_product_duplicate_sku [OF h] by simp
qed

text \<open>The claim as stated fails when the category of the second request does not
  exist: the answer is then status 404, not the conflict.\<close>

theorem duplicate_sku_unknown_category:
  "map p_sku (products example_db) = [pc_sku same_sku_no_category] \<and>
   create_product same_sku_no_category example_db =
     (Inl (HTTPException 404 ''Category not found''), example_db) \<and>
   fst (create_product same_sku_no_category example_db) \<noteq>
     Inl (HTTPException 400 ''SKU already exists'')"
  by (simp add: create_product_def example_db_def example_product_def
      same_sku_no_category_def same_sku_def first_def)

text \<open>
  Claim C10. A filter value of \<open>0\<close> counts as no value, since the handlers test the
  parameter's truth: \<open>get_products\<close> with \<open>category_id = 0\<close> answers as without the
  parameter (all products, when no other filter is given), and \<open>get_sales\<close> with
  \<open>product_id = 0\<close> or \<open>category_id = 0\<close> answers as without that parameter.
\<close>

theorem zero_filter_is_no_filter:
  "get_products (Some 0) platform is_active s = get_products None platform is_active s \<and>
   get_products (Some 0) None None s = products s \<and>
   get_sales start_date end_date (Some 0) category_id platform limit offset s =
     get_sales start_date end_date None category_id platform limit offset s \<and>
   get_sales start_date end_date product_id (Some 0) platform limit offset s =
     get_sales start_date end_date product_id None platform limit offset s"
  by (simp add: get_products_def get_sales_def truthy_int_def truthy_str_def Let_def)

section \<open>Revenue analysis: bucket keys\<close>

lemma days_in_month_ge_28:
  assumes "1 \<le> m" "m \<le> 12"
  shows "28 \<le> days_in_month y m"
  using assms
  by (cases m rule: month_cases) (simp_all add: days_in_month_def DAYS_IN_MONTH_def)

text \<open>
  Claim C4. For a sale whose date \<open>d\<close> is a date of the calendar, the bucket key is:
  daily, \<open>d\<close> itself; weekly, the date \<open>weekday d\<close> days before \<open>d\<close>, which is a
  Monday; monthly, day 1 of the month of \<open>d\<close>; annual, January 1st of the year of
  \<open>d\<close>. No branch raises.
\<close>

theorem bucket_key_start_of_period:
  assumes "valid_date (date_part (s_sale_date sale))"
  shows "bucket_key daily sale = Inr (date_part (s_sale_date sale)) \<and>
         (\<exists>k. bucket_key weekly sale = Inr k \<and> valid_date k \<and>
              toordinal k = toordinal (date_part (s_sale_date sale))
                              - weekday (date_part (s_sale_date sale)) \<and>
              weekday k = 0) \<and>
         bucket_key monthly sale = Inr ((date_part (s_sale_date sale))\<lparr>day := 1\<rparr>) \<and>
         bucket_key annual sale = Inr ((date_part (s_sale_date sale))\<lparr>month := 1, day := 1\<rparr>)"
proof -
  let ?d = "date_part (s_sale_date sale)"
  from assms have v: "1 \<le> year ?d" "year ?d \<le> 9999" "1 \<le> month ?d" "month ?d \<le> 12"
    by (simp_all add: valid_date_def MINYEAR_def MAXYEAR_def)
  have "bucket_key daily sale = Inr ?d"
    by (simp add: bucket_key_def Let_def)
  moreover have "\<exists>k. bucket_key weekly sale = Inr k \<and> valid_date k \<and>
      toordinal k = toordinal ?d - weekday ?d \<and> weekday k = 0"
    using monday_of_week [OF assms] by (simp add: bucket_key_def Let_def)
  moreover have "bucket_key monthly sale = Inr (?d\<lparr>day := 1\<rparr>)"
    using v days_in_month_ge_28 [OF v(3,4), of "year ?d"]
    by (simp add: bucket_key_def new_date_def valid_date_def MINYEAR_def MAXYEAR_def Let_def)
  moreover have "bucket_key annual sale = Inr (?d\<lparr>month := 1, day := 1\<rparr>)"
    using v
    by (simp add: bucket_key_def new_date_def valid_date_def MINYEAR_def MAXYEAR_def
        days_in_month_def DAYS_IN_MONTH_def Let_def)
  ultimately show ?thesis by blast
qed

theorem bucket_key_start_of_period_witness:
  "valid_date (date_part (s_sale_date example_sale)) \<and>
   bucket_key daily example_sale = Inr \<lparr>year = 2024, month = 5, day = 10\<rparr> \<and>
   bucket_key weekly example_sale = Inr \<lparr>year = 2024, month = 5, day = 6\<rparr> \<and>
   weekday \<lparr>year = 2024, month = 5, day = 10\<rparr> = 4 \<and>
   weekday \<lparr>year = 2024, month = 5, day = 6\<rparr> = 0 \<and>
   bucket_key monthly example_sale = Inr \<lparr>year = 2024, month = 5, day = 1\<rparr> \<and>
   bucket_key annual example_sale = Inr \<lparr>year = 2024, month = 1, day = 1\<rparr>"
proof -
  have h: "valid_date (date_part (s_sale_date example_sale))"
    by code_simp
  have d: "date_part (s_sale_date example_sale) = \<lparr>year = 2024, month = 5, day = 10\<rparr>"
    by (simp add: example_sale_def at_time_def)
  have w: "bucket_key weekly example_sale = Inr \<lparr>year = 2024, month = 5, day = 6\<rparr>"
    by code_simp
  have w4: "weekday \<lparr>year = 2024, month = 5, day = 10\<rparr> = 4"
    by code_simp
  have w0: "weekday \<lparr>year = 2024, month = 5, day = 6\<rparr> = 0"
    by code_simp
  show ?thesis
    using h w w4 w0 bucket_key_start_of_period [OF h] unfolding d by simp
qed

section \<open>Revenue analysis: units\<close>

lemma sum_dict_set:
  "sum_list (map (\<lambda>kv. f (snd kv)) (dict_set k v g)) =
   sum_list (map (\<lambda>kv. f (snd kv)) g) + f v - (case map_of g k of None \<Rightarrow> 0 | Some b \<Rightarrow> f b)"
  for f :: "'v \<Rightarrow> 'a::ab_group_add"
  by (induction g) (auto simp: algebra_simps)

lemma add_sale_quantity:
  "sum_list (map (\<lambda>kv. b_total_sales (snd kv)) (add_sale key sale g)) =
   sum_list (map (\<lambda>kv. b_total_sales (snd kv)) g) + s_quantity sale"
  by (simp add: add_sale_def sum_dict_set Let_def split: option.split)

lemma group_sales_quantity:
  "group_sales p xs g = Inr g' \<Longrightarrow>
   sum_list (map (\<lambda>kv. b_total_sales (snd kv)) g') =
   sum_list (map (\<lambda>kv. b_total_sales (snd kv)) g) + sum_list (map s_quantity xs)"
  by (induction xs arbitrary: g) (auto simp: add_sale_quantity split: sum.splits)

lemma build_result_fields:
  "build_result p g = Inr res \<Longrightarrow>
   map r_total_revenue res = map (\<lambda>kv. b_total_revenue (snd kv)) g \<and>
   map r_total_sales res = map (\<lambda>kv. b_total_sales (snd kv)) g"
  by (induction p g arbitrary: res rule: build_result.induct)
     (auto simp: Let_def split: sum.splits if_splits)

lemma sum_list_insort_key:
  "sum_list (map h (insort_key f x xs)) = h x + sum_list (map h xs)"
  for h :: "'b \<Rightarrow> 'a::ab_group_add"
  by (induction xs) (auto simp: algebra_simps)

lemma sum_list_sort_key:
  "sum_list (map h (sort_key f xs)) = sum_list (map h xs)"
  for h :: "'b \<Rightarrow> 'a::ab_group_add"
  by (induction xs) (simp_all add: sort_key_def sum_list_insort_key)

text \<open>Whenever the handler returns, the units of the buckets add up to the units of
  the sales it read. (The revenue of a bucket is a float sum, taken in the order of
  the rows.)\<close>

lemma units_conserved_on_return:
  assumes "get_revenue_analysis p (Some start_date) (Some end_date) category_id platform
             now1 now2 s = Inr result"
  shows "sum_list (map r_total_sales result) =
           sum_list (map s_quantity
             (revenue_sales start_date end_date category_id platform s))"
proof -
  let ?sales = "revenue_sales start_date end_date category_id platform s"
  from assms obtain g res where g: "group_sales p ?sales [] = Inr g"
    and res: "build_result p g = Inr res"
    and result: "result = sort_key (\<lambda>x. dt_key (r_start_date x)) res"
    by (auto simp: get_revenue_analysis_def and_then_def Let_def split: sum.splits)
  show ?thesis
    using group_sales_quantity [OF g] build_result_fields [OF res]
    by (simp add: result sum_list_sort_key)
qed

section \<open>Revenue analysis: the end of a bucket\<close>

text \<open>The monthly branch never yields an end: whatever the key, it raises.\<close>

lemma period_end_monthly_never_returns: "period_end monthly date_key \<noteq> Inr t"
  by (auto simp: period_end_def and_then_def split: sum.splits)

lemma build_result_monthly: "build_result monthly g = Inr res \<Longrightarrow> g = []"
  by (cases g) (auto simp: Let_def period_end_monthly_never_returns split: sum.splits)

lemma dict_set_nonempty: "dict_set k v g \<noteq> []"
  by (cases g) auto

lemma group_sales_keeps_buckets: "group_sales p xs g = Inr g' \<Longrightarrow> g \<noteq> [] \<Longrightarrow> g' \<noteq> []"
  by (induction xs arbitrary: g)
     (auto simp: add_sale_def Let_def dict_set_nonempty split: sum.splits)

lemma group_sales_nonempty: "group_sales p xs [] = Inr g' \<Longrightarrow> xs \<noteq> [] \<Longrightarrow> g' \<noteq> []"
  by (cases xs)
     (auto simp: add_sale_def dict_set_nonempty split: sum.splits
           dest!: group_sales_keeps_buckets)

text \<open>So the monthly analysis raises as soon as one sale matches.\<close>

lemma monthly_raises_on_any_sale:
  assumes "revenue_sales start_date end_date category_id platform s \<noteq> []"
  shows "\<exists>e. get_revenue_analysis monthly (Some start_date) (Some end_date) category_id
               platform now1 now2 s = Inl e"
proof (cases "get_revenue_analysis monthly (Some start_date) (Some end_date) category_id
                platform now1 now2 s")
  case (Inl e)
  then show ?thesis by simp
next
  case (Inr result)
  let ?sales = "revenue_sales start_date end_date category_id platform s"
  from Inr obtain g res where g: "group_sales monthly ?sales [] = Inr g"
    and res: "build_result monthly g = Inr res"
    by (auto simp: get_revenue_analysis_def and_then_def Let_def split: sum.splits)
  from group_sales_nonempty [OF g assms] build_result_monthly [OF res]
  show ?thesis by simp
qed

text \<open>
  Claim C1. The claim asks, for every granularity, that the returned buckets add up to
  the matching sales. For the monthly granularity the handler returns nothing when a
  sale matches: in the example store one sale of 20 lies in May 2024, and the monthly
  analysis over May ends with \<open>TypeError\<close>.
\<close>

theorem monthly_revenue_raises:
  "sum_list (map s_total_amount (revenue_sales may_first may_last None None example_db)) = 20 \<and>
   get_revenue_analysis monthly (Some may_first) (Some may_last) None None
     june_first june_first example_db = Inl TypeError"
  by code_simp

text \<open>
  Claim C2. The claim asks for the last day of the month at 23:59:59 as the end of a
  monthly bucket. The handler finds the last day (2024-05-31 for the bucket of May
  2024) as a \<^verbatim>\<open>date\<close>, and the \<^verbatim>\<open>replace(hour=23, minute=59, second=59)\<close> on it
  raises \<open>TypeError\<close>: no end is computed.
\<close>

theorem monthly_period_end_raises:
  "and_then (date_add \<lparr>year = 2024, month = 5, day = 28\<rparr> (mk_timedelta 4 0))
     (\<lambda>next_month. date_sub next_month (mk_timedelta (day next_month) 0)) =
     Inr \<lparr>year = 2024, month = 5, day = 31\<rparr> \<and>
   replace_hms (Date \<lparr>year = 2024, month = 5, day = 31\<rparr>) 23 59 59 = Inl TypeError \<and>
   period_end monthly \<lparr>year = 2024, month = 5, day = 1\<rparr> = Inl TypeError"
  by code_simp

text \<open>
  Claim C3. The claim asks for December 31st at 23:59:59 as the end of an annual
  bucket. The handler subtracts \<^verbatim>\<open>timedelta(seconds=1)\<close> from a \<^verbatim>\<open>date\<close>, which
  ignores the seconds: the end of the bucket of 2024 is the \<^verbatim>\<open>date\<close> 2025-01-01.
\<close>

theorem annual_period_end_is_next_new_year:
  "period_end annual \<lparr>year = 2024, month = 1, day = 1\<rparr> =
     Inr (Date \<lparr>year = 2025, month = 1, day = 1\<rparr>) \<and>
   get_revenue_analysis annual (Some may_first) (Some may_last) None None
     june_first june_first example_db =
     Inr [\<lparr>r_period = annual, r_total_revenue = 20, r_total_sales = 2,
           r_average_order_value = 20, r_start_date = at_time 2024 1 1 0 0 0,
           r_end_date = Date \<lparr>year = 2025, month = 1, day = 1\<rparr>\<rparr>]"
  by code_simp


end
